theory Spec2Isabelle
  imports Main "HOL-Library.Word"
begin

unbundle bit_operations_syntax

section \<open>Data model of \<^verbatim>\<open>pyfastocloud_models/subscriber/entry.py\<close>\<close>

text \<open>
  A bson \<^verbatim>\<open>ObjectId\<close> is an opaque identifier: the code only compares ids and turns
  them into text, so an id is a number here. A \<^verbatim>\<open>ReferenceField\<close> is the id of the
  document it points to; mongoengine's lazy loading of the target is not part of the
  model. Dates are numbers (milliseconds).
\<close>

type_synonym objectid = nat

datatype device_status = DEV_NOT_ACTIVE | DEV_ACTIVE | DEV_BANNED

datatype subscriber_status = NOT_ACTIVE | ACTIVE | DELETED

record device =
  device_id :: objectid
  device_created_date :: int
  device_status :: device_status
  device_name :: string

record user_stream =
  sid :: objectid
  favorite :: bool
  is_private :: bool
  recent :: int
  interruption_time :: int

record subscriber =
  sub_id :: objectid
  email :: string
  first_name :: string
  last_name :: string
  password :: string
  created_date :: int
  exp_date :: int
  status :: subscriber_status
  country :: string
  language :: string
  servers :: "objectid list"
  devices :: "device list"
  max_devices_count :: int
  streams :: "user_stream list"

text \<open>
  Modelled from the spec: the catalog stream entity \<^verbatim>\<open>IStream\<close> of
  \<^verbatim>\<open>pyfastocloud_models/stream/entry.py\<close>, which is not among the sources. The
  subscriber code reads nothing of it but its id.
\<close>

record istream =
  istream_id :: objectid
  istream_name :: string

section \<open>The document store\<close>

text \<open>
  The store holds the \<^verbatim>\<open>subscribers\<close> collection, keyed by document id, and the
  collection of catalog streams. \<open>oplog\<close> records every write the code asks of the store,
  oldest first, so that "does not persist" is a statement about the model.
\<close>

datatype dbop = SaveSubscriber objectid | DeleteStream objectid

record db =
  subscribers :: "objectid \<rightharpoonup> subscriber"
  istreams :: "istream list"
  oplog :: "dbop list"

text \<open>
  An operation of \<^verbatim>\<open>Subscriber\<close> runs on the object in memory (\<open>self\<close>) and on the
  store.
\<close>

record world =
  self :: subscriber
  store :: db


datatype pyvalue = PyNone | PyBool bool

text \<open>
  \<^verbatim>\<open>Document.save()\<close>: the stored document becomes the one in memory. mongoengine
  sends only the changed fields; for one sequential client that is the same document.
  Field validation belongs to the store layer and is not modelled.
\<close>

definition document_save :: "world \<Rightarrow> world" where
  "document_save w =
     w\<lparr>store := (store w)\<lparr>
          subscribers := (subscribers (store w))(sub_id (self w) \<mapsto> self w),
          oplog := oplog (store w) @ [SaveSubscriber (sub_id (self w))]\<rparr>\<rparr>"



section \<open>\<^verbatim>\<open>EmbeddedDocumentList\<close>\<close>

text \<open>
  \<^verbatim>\<open>filter(**kwargs)\<close> keeps the embedded documents that match every keyword, in
  order. \<^verbatim>\<open>delete()\<close> calls \<^verbatim>\<open>list.remove(item)\<close> on the owner's list for every
  document of the filtered list; \<^verbatim>\<open>list.remove\<close> drops the first equal element and
  raises \<^verbatim>\<open>ValueError\<close> when there is none.
\<close>

definition edl_filter :: "('a \<Rightarrow> bool) \<Rightarrow> 'a list \<Rightarrow> 'a list" where
  "edl_filter p xs = filter p xs"



text \<open>
  A keyword \<^verbatim>\<open>sid=stream\<close> matches an association whose reference is that stream;
  \<^verbatim>\<open>None\<close> (no such stream) matches no association.
\<close>

fun sid_matches :: "istream option \<Rightarrow> user_stream \<Rightarrow> bool" where
  "sid_matches None u = False"
| "sid_matches (Some e) u = (sid u = istream_id e)"

section \<open>Operations of \<^verbatim>\<open>Subscriber\<close>\<close>

definition add_device :: "device \<Rightarrow> world \<Rightarrow> pyvalue \<times> world" where
  "add_device dev w =
     (if int (length (devices (self w))) < max_devices_count (self w)
      then (PyNone, document_save (w\<lparr>self := (self w)\<lparr>devices := devices (self w) @ [dev]\<rparr>\<rparr>))
      else (PyNone, w))"




definition new_user_stream :: "objectid \<Rightarrow> user_stream" where
  "new_user_stream i =
     \<lparr>sid = i, favorite = False, is_private = False, recent = 0, interruption_time = 0\<rparr>"

definition add_official_stream :: "user_stream \<Rightarrow> world \<Rightarrow> world" where
  "add_official_stream stream w =
     (let db_stream = sid stream;
          found_streams = edl_filter (\<lambda>u. sid u = db_stream) (streams (self w))
      in if found_streams = []
         then document_save (w\<lparr>self := (self w)\<lparr>streams := streams (self w) @ [stream]\<rparr>\<rparr>)
         else w)"


definition add_own_stream :: "istream \<Rightarrow> world \<Rightarrow> world" where
  "add_own_stream stream w =
     (let user_stream = (new_user_stream (istream_id stream))\<lparr>is_private := True\<rparr>;
          found_streams = edl_filter (sid_matches (Some stream)) (streams (self w))
      in if found_streams = []
         then document_save (w\<lparr>self := (self w)\<lparr>streams := streams (self w) @ [user_stream]\<rparr>\<rparr>)
         else w)"








section \<open>Password hashing: MD5 (RFC 1321), as \<^verbatim>\<open>hashlib.md5\<close> computes it\<close>

definition md5_shifts :: "nat list" where
  "md5_shifts =
     [
      7, 12, 17, 22, 7, 12, 17, 22, 7, 12, 17, 22, 7, 12, 17, 22,
      5, 9, 14, 20, 5, 9, 14, 20, 5, 9, 14, 20, 5, 9, 14, 20,
      4, 11, 16, 23, 4, 11, 16, 23, 4, 11, 16, 23, 4, 11, 16, 23,
      6, 10, 15, 21, 6, 10, 15, 21, 6, 10, 15, 21, 6, 10, 15, 21]"

definition md5_sines :: "32 word list" where
  "md5_sines =
     [
      0xd76aa478, 0xe8c7b756, 0x242070db, 0xc1bdceee,
      0xf57c0faf, 0x4787c62a, 0xa8304613, 0xfd469501,
      0x698098d8, 0x8b44f7af, 0xffff5bb1, 0x895cd7be,
      0x6b901122, 0xfd987193, 0xa679438e, 0x49b40821,
      0xf61e2562, 0xc040b340, 0x265e5a51, 0xe9b6c7aa,
      0xd62f105d, 0x02441453, 0xd8a1e681, 0xe7d3fbc8,
      0x21e1cde6, 0xc33707d6, 0xf4d50d87, 0x455a14ed,
      0xa9e3e905, 0xfcefa3f8, 0x676f02d9, 0x8d2a4c8a,
      0xfffa3942, 0x8771f681, 0x6d9d6122, 0xfde5380c,
      0xa4beea44, 0x4bdecfa9, 0xf6bb4b60, 0xbebfbc70,
      0x289b7ec6, 0xeaa127fa, 0xd4ef3085, 0x04881d05,
      0xd9d4d039, 0xe6db99e5, 0x1fa27cf8, 0xc4ac5665,
      0xf4292244, 0x432aff97, 0xab9423a7, 0xfc93a039,
      0x655b59c3, 0x8f0ccc92, 0xffeff47d, 0x85845dd1,
      0x6fa87e4f, 0xfe2ce6e0, 0xa3014314, 0x4e0811a1,
      0xf7537e82, 0xbd3af235, 0x2ad7d2bb, 0xeb86d391]"

text \<open>
  The 64 steps of a block: \<open>md5_shifts\<close> and \<open>md5_sines\<close> are the rotation amounts and the
  constants \<open>floor (2^32 * abs (sin (i + 1)))\<close> of the standard; \<open>md5_mix\<close> is the auxiliary
  function of the round a step belongs to, \<open>md5_index\<close> the word of the block it reads.
\<close>

definition rotate_left :: "nat \<Rightarrow> 32 word \<Rightarrow> 32 word" where
  "rotate_left n x = push_bit n x OR drop_bit (32 - n) x"

definition md5_mix :: "nat \<Rightarrow> 32 word \<Rightarrow> 32 word \<Rightarrow> 32 word \<Rightarrow> 32 word" where
  "md5_mix i b c d =
     (if i < 16 then (b AND c) OR (NOT b AND d)
      else if i < 32 then (d AND b) OR (NOT d AND c)
      else if i < 48 then b XOR c XOR d
      else c XOR (b OR NOT d))"

definition md5_index :: "nat \<Rightarrow> nat" where
  "md5_index i =
     (if i < 16 then i
      else if i < 32 then (5 * i + 1) mod 16
      else if i < 48 then (3 * i + 5) mod 16
      else (7 * i) mod 16)"

type_synonym md5_state = "32 word \<times> 32 word \<times> 32 word \<times> 32 word"

fun md5_round :: "32 word list \<Rightarrow> md5_state \<Rightarrow> nat \<Rightarrow> md5_state" where
  "md5_round m (a, b, c, d) i =
     (d, b + rotate_left (md5_shifts ! i) (a + md5_mix i b c d + md5_sines ! i + m ! md5_index i), b, c)"

fun md5_block :: "md5_state \<Rightarrow> 32 word list \<Rightarrow> md5_state" where
  "md5_block (a0, b0, c0, d0) m =
     (case foldl (md5_round m) (a0, b0, c0, d0) [0..<64] of
        (a, b, c, d) \<Rightarrow> (a0 + a, b0 + b, c0 + c, d0 + d))"

text \<open>
  Bytes and words are little-endian. The message is padded with the byte 0x80, then
  zero bytes until its length is 56 modulo 64, then its length in bits as a 64-bit
  word, so that whole blocks of sixteen words result.
\<close>

fun le_words :: "8 word list \<Rightarrow> 32 word list" where
  "le_words (b0 # b1 # b2 # b3 # bs) =
     (ucast b0 OR push_bit 8 (ucast b1) OR push_bit 16 (ucast b2) OR push_bit 24 (ucast b3)) # le_words bs"
| "le_words bs = []"

definition le_bytes32 :: "32 word \<Rightarrow> 8 word list" where
  "le_bytes32 w = map (\<lambda>k. ucast (drop_bit (8 * k) w)) [0, 1, 2, 3]"

definition le_bytes64 :: "64 word \<Rightarrow> 8 word list" where
  "le_bytes64 w = map (\<lambda>k. ucast (drop_bit (8 * k) w)) [0, 1, 2, 3, 4, 5, 6, 7]"

definition md5_pad :: "8 word list \<Rightarrow> 8 word list" where
  "md5_pad bs =
     bs @ [0x80] @ replicate ((119 - length bs mod 64) mod 64) 0 @ le_bytes64 (of_nat (8 * length bs))"

fun md5_blocks :: "nat \<Rightarrow> md5_state \<Rightarrow> 32 word list \<Rightarrow> md5_state" where
  "md5_blocks 0 st ws = st"
| "md5_blocks (Suc n) st ws = md5_blocks n (md5_block st (take 16 ws)) (drop 16 ws)"

definition md5_init :: md5_state where
  "md5_init = (0x67452301, 0xefcdab89, 0x98badcfe, 0x10325476)"

definition md5_digest :: "8 word list \<Rightarrow> 8 word list" where
  "md5_digest bs =
     (let ws = le_words (md5_pad bs) in
      case md5_blocks (length ws div 16) md5_init ws of
        (a, b, c, d) \<Rightarrow> concat (map le_bytes32 [a, b, c, d]))"

text \<open>\<^verbatim>\<open>hexdigest()\<close>: two lowercase hexadecimal digits a byte, high digit first.\<close>

definition hex_digit :: "nat \<Rightarrow> char" where
  "hex_digit n = ''0123456789abcdef'' ! (n mod 16)"

definition hexdigest :: "8 word list \<Rightarrow> string" where
  "hexdigest bs = concat (map (\<lambda>b. [hex_digit (unat b div 16), hex_digit (unat b mod 16)]) bs)"

text \<open>
  \<^verbatim>\<open>password.encode()\<close>: a password is held as the bytes of its UTF-8 text, one
  \<open>char\<close> a byte, so encoding reads the bytes off.
\<close>

definition encode :: "string \<Rightarrow> 8 word list" where
  "encode s = map of_char s"

definition make_md5_hash_from_password :: "string \<Rightarrow> string" where
  "make_md5_hash_from_password passwd = hexdigest (md5_digest (encode passwd))"

definition generate_password_hash :: "string \<Rightarrow> string" where
  "generate_password_hash passwd = make_md5_hash_from_password passwd"

definition check_password_hash :: "string \<Rightarrow> string \<Rightarrow> bool" where
  "check_password_hash hash passwd = (hash = generate_password_hash passwd)"

section \<open>The scenarios of the specification, as values\<close>

definition device_A :: device where
  "device_A = \<lparr>device_id = 101, device_created_date = 0, device_status = DEV_NOT_ACTIVE,
                device_name = ''Device''\<rparr>"

definition device_B :: device where
  "device_B = device_A\<lparr>device_id := 102\<rparr>"

definition device_C :: device where
  "device_C = device_A\<lparr>device_id := 103\<rparr>"

definition stream_S1 :: istream where
  "stream_S1 = \<lparr>istream_id = 1, istream_name = ''S1''\<rparr>"

definition stream_S2 :: istream where
  "stream_S2 = \<lparr>istream_id = 2, istream_name = ''S2''\<rparr>"

definition subscriber_0 :: subscriber where
  "subscriber_0 =
     \<lparr>sub_id = 7, email = ''a@b.c'', first_name = ''A'', last_name = ''B'',
      password = ''900150983cd24fb0d6963f7d28e17f72'', created_date = 0, exp_date = 4102444800000,
      status = ACTIVE, country = ''NL'', language = ''en'', servers = [11],
      devices = [], max_devices_count = 2, streams = []\<rparr>"

definition store_0 :: db where
  "store_0 = \<lparr>subscribers = [7 \<mapsto> subscriber_0], istreams = [stream_S1, stream_S2], oplog = []\<rparr>"

definition world_0 :: world where
  "world_0 = \<lparr>self = subscriber_0, store = store_0\<rparr>"



text \<open>Two devices registered, with the quota of two: the registry is full.\<close>

definition world_full :: world where
  "world_full = snd (add_device device_B (snd (add_device device_A world_0)))"

text \<open>A subscriber whose quota was lowered to one after two devices were registered.\<close>

definition world_over :: world where
  "world_over = world_full\<lparr>self := (self world_full)\<lparr>max_devices_count := 1\<rparr>\<rparr>"





section \<open>What the operations compute\<close>







text \<open>The scenarios, evaluated.\<close>

lemma world_full_eq:
  "world_full =
     \<lparr>self = subscriber_0\<lparr>devices := [device_A, device_B]\<rparr>,
      store = store_0\<lparr>subscribers := [7 \<mapsto> subscriber_0\<lparr>devices := [device_A, device_B]\<rparr>],
                      oplog := [SaveSubscriber 7, SaveSubscriber 7]\<rparr>\<rparr>"
  by (simp add: world_full_def add_device_def document_save_def world_0_def store_0_def subscriber_0_def)


section \<open>Removing an official stream\<close>



section \<open>Manifest generation\<close>




section \<open>Registering a device\<close>




section \<open>The quota of devices\<close>

text \<open>
  C8, as stated for any starting state, fails: a subscriber that holds two devices with
  a quota of one holds two devices after \<^verbatim>\<open>add_device\<close> as well.
\<close>

theorem add_device_any_state_counterexample:
  "\<not> int (length (devices (self (snd (add_device device_C world_over)))))
       \<le> max_devices_count (self (snd (add_device device_C world_over)))"
  by (simp add: world_over_def world_full_eq add_device_def)

text \<open>
  C8, amended. For every subscriber whose number of devices is at most
  \<^verbatim>\<open>max_devices_count\<close> before the call, and every device, the number of devices is at
  most \<^verbatim>\<open>max_devices_count\<close> after \<^verbatim>\<open>add_device\<close>. From any starting state, the
  number of devices afterwards is at most the larger of the number before and the
  quota, and the quota is unchanged.
\<close>

theorem add_device_keeps_quota:
  "(int (length (devices (self w))) \<le> max_devices_count (self w) \<longrightarrow>
      int (length (devices (self (snd (add_device dev w)))))
        \<le> max_devices_count (self (snd (add_device dev w)))) \<and>
   int (length (devices (self (snd (add_device dev w)))))
      \<le> max (int (length (devices (self w)))) (max_devices_count (self w)) \<and>
   max_devices_count (self (snd (add_device dev w))) = max_devices_count (self w)"
  by (simp add: add_device_def document_save_def)

text \<open>The full registry stays within its quota, and so does the empty one after one device.\<close>

theorem add_device_keeps_quota_witness:
  "int (length (devices (self (snd (add_device device_C world_full)))))
      \<le> max_devices_count (self (snd (add_device device_C world_full))) \<and>
   int (length (devices (self (snd (add_device device_A world_0)))))
      \<le> max_devices_count (self (snd (add_device device_A world_0)))"
  using add_device_keeps_quota [of world_full device_C] add_device_keeps_quota [of world_0 device_A]
  by (simp add: world_full_eq world_0_def subscriber_0_def)

section \<open>Adding a stream\<close>

lemma sid_matches_Some: "sid_matches (Some e) = (\<lambda>u. sid u = istream_id e)"
  by (rule ext) simp





lemma add_stream_keeps_unique:
  "distinct (map sid (streams (self w))) \<Longrightarrow>
     distinct (map sid (streams (self (add_official_stream stream w)))) \<and>
     distinct (map sid (streams (self (add_own_stream own w))))"
  by (auto simp add: add_official_stream_def add_own_stream_def edl_filter_def document_save_def
      new_user_stream_def sid_matches_Some Let_def filter_empty_conv)



section \<open>Removing an own stream\<close>










section \<open>Deleting a subscriber\<close>






section \<open>Operations whose constraint fails\<close>




section \<open>Password hashes\<close>

text \<open>
  The digests below are computed in the logic, block by block. The first two are the
  test vectors of RFC 1321 for the empty message and for \<^verbatim>\<open>abc\<close>.
\<close>

lemma replicate_numeral: "replicate (numeral k) x = x # replicate (pred_numeral k) x"
  by (simp add: numeral_eq_Suc)

lemma md5_blocks_numeral:
  "md5_blocks (numeral k) st ws = md5_blocks (pred_numeral k) (md5_block st (take 16 ws)) (drop 16 ws)"
  by (simp add: numeral_eq_Suc)

lemmas md5_round_defs = md5_shifts_def md5_sines_def md5_mix_def md5_index_def rotate_left_def

lemma md5_words_empty:
  "le_words (md5_pad (encode '''')) =
     [0x00000080, 0x00000000, 0x00000000, 0x00000000, 0x00000000, 0x00000000, 0x00000000, 0x00000000,
      0x00000000, 0x00000000, 0x00000000, 0x00000000, 0x00000000, 0x00000000, 0x00000000, 0x00000000]"
  by (simp add: md5_pad_def encode_def le_bytes64_def replicate_numeral)

lemma md5_block_empty_1:
  "md5_block (0x67452301, 0xefcdab89, 0x98badcfe, 0x10325476)
     [0x00000080, 0x00000000, 0x00000000, 0x00000000, 0x00000000, 0x00000000, 0x00000000, 0x00000000,
      0x00000000, 0x00000000, 0x00000000, 0x00000000, 0x00000000, 0x00000000, 0x00000000, 0x00000000] =
   (0xd98c1dd4, 0x04b2008f, 0x980980e9, 0x7e42f8ec)"
  by (simp add: md5_round_defs upt_rec)

lemma md5_hash_empty:
  "make_md5_hash_from_password '''' = ''d41d8cd98f00b204e9800998ecf8427e''"
  by (simp add: make_md5_hash_from_password_def md5_digest_def md5_words_empty md5_init_def
      md5_blocks_numeral md5_block_empty_1 hexdigest_def hex_digit_def le_bytes32_def del: md5_block.simps)

lemma md5_words_abc:
  "le_words (md5_pad (encode ''abc'')) =
     [0x80636261, 0x00000000, 0x00000000, 0x00000000, 0x00000000, 0x00000000, 0x00000000, 0x00000000,
      0x00000000, 0x00000000, 0x00000000, 0x00000000, 0x00000000, 0x00000000, 0x00000018, 0x00000000]"
  by (simp add: md5_pad_def encode_def le_bytes64_def replicate_numeral)

lemma md5_block_abc_1:
  "md5_block (0x67452301, 0xefcdab89, 0x98badcfe, 0x10325476)
     [0x80636261, 0x00000000, 0x00000000, 0x00000000, 0x00000000, 0x00000000, 0x00000000, 0x00000000,
      0x00000000, 0x00000000, 0x00000000, 0x00000000, 0x00000000, 0x00000000, 0x00000018, 0x00000000] =
   (0x98500190, 0xb04fd23c, 0x7d3f96d6, 0x727fe128)"
  by (simp add: md5_round_defs upt_rec)

lemma md5_hash_abc:
  "make_md5_hash_from_password ''abc'' = ''900150983cd24fb0d6963f7d28e17f72''"
  by (simp add: make_md5_hash_from_password_def md5_digest_def md5_words_abc md5_init_def
      md5_blocks_numeral md5_block_abc_1 hexdigest_def hex_digit_def le_bytes32_def del: md5_block.simps)

lemma md5_words_coll_a:
  "le_words (md5_pad (encode ''TEXTCOLLBYfGiJUETHQ4hAcKSMd5zYpgqf1YRDhkmxHkhPWptrkoyz28wnI9V0aHeAuaKnak'')) =
     [0x54584554, 0x4c4c4f43, 0x47665942, 0x45554a69, 0x34514854, 0x4b634168, 0x35644d53, 0x6770597a,
      0x59316671, 0x6b684452, 0x6b48786d, 0x70575068, 0x6f6b7274, 0x38327a79, 0x39496e77, 0x48613056,
      0x61754165, 0x6b616e4b, 0x00000080, 0x00000000, 0x00000000, 0x00000000, 0x00000000, 0x00000000,
      0x00000000, 0x00000000, 0x00000000, 0x00000000, 0x00000000, 0x00000000, 0x00000240, 0x00000000]"
  by (simp add: md5_pad_def encode_def le_bytes64_def replicate_numeral)

lemma md5_block_coll_a_1:
  "md5_block (0x67452301, 0xefcdab89, 0x98badcfe, 0x10325476)
     [0x54584554, 0x4c4c4f43, 0x47665942, 0x45554a69, 0x34514854, 0x4b634168, 0x35644d53, 0x6770597a,
      0x59316671, 0x6b684452, 0x6b48786d, 0x70575068, 0x6f6b7274, 0x38327a79, 0x39496e77, 0x48613056] =
   (0xe22ebfe4, 0x9e2ac02a, 0x9b6b3769, 0xcd599281)"
  by (simp add: md5_round_defs upt_rec)

lemma md5_block_coll_a_2:
  "md5_block (0xe22ebfe4, 0x9e2ac02a, 0x9b6b3769, 0xcd599281)
     [0x61754165, 0x6b616e4b, 0x00000080, 0x00000000, 0x00000000, 0x00000000, 0x00000000, 0x00000000,
      0x00000000, 0x00000000, 0x00000000, 0x00000000, 0x00000000, 0x00000000, 0x00000240, 0x00000000] =
   (0x8649adfa, 0xfc98946e, 0x28f51917, 0x69027a9e)"
  by (simp add: md5_round_defs upt_rec)

lemma md5_hash_coll_a:
  "make_md5_hash_from_password ''TEXTCOLLBYfGiJUETHQ4hAcKSMd5zYpgqf1YRDhkmxHkhPWptrkoyz28wnI9V0aHeAuaKnak'' = ''faad49866e9498fc1719f5289e7a0269''"
  by (simp add: make_md5_hash_from_password_def md5_digest_def md5_words_coll_a md5_init_def
      md5_blocks_numeral md5_block_coll_a_1 md5_block_coll_a_2 hexdigest_def hex_digit_def le_bytes32_def del: md5_block.simps)

lemma md5_words_coll_b:
  "le_words (md5_pad (encode ''TEXTCOLLBYfGiJUETHQ4hEcKSMd5zYpgqf1YRDhkmxHkhPWptrkoyz28wnI9V0aHeAuaKnak'')) =
     [0x54584554, 0x4c4c4f43, 0x47665942, 0x45554a69, 0x34514854, 0x4b634568, 0x35644d53, 0x6770597a,
      0x59316671, 0x6b684452, 0x6b48786d, 0x70575068, 0x6f6b7274, 0x38327a79, 0x39496e77, 0x48613056,
      0x61754165, 0x6b616e4b, 0x00000080, 0x00000000, 0x00000000, 0x00000000, 0x00000000, 0x00000000,
      0x00000000, 0x00000000, 0x00000000, 0x00000000, 0x00000000, 0x00000000, 0x00000240, 0x00000000]"
  by (simp add: md5_pad_def encode_def le_bytes64_def replicate_numeral)

lemma md5_block_coll_b_1:
  "md5_block (0x67452301, 0xefcdab89, 0x98badcfe, 0x10325476)
     [0x54584554, 0x4c4c4f43, 0x47665942, 0x45554a69, 0x34514854, 0x4b634568, 0x35644d53, 0x6770597a,
      0x59316671, 0x6b684452, 0x6b48786d, 0x70575068, 0x6f6b7274, 0x38327a79, 0x39496e77, 0x48613056] =
   (0x622ebfe4, 0x1e2ac02a, 0x1b6b3769, 0x4d599281)"
  by (simp add: md5_round_defs upt_rec)

lemma md5_block_coll_b_2:
  "md5_block (0x622ebfe4, 0x1e2ac02a, 0x1b6b3769, 0x4d599281)
     [0x61754165, 0x6b616e4b, 0x00000080, 0x00000000, 0x00000000, 0x00000000, 0x00000000, 0x00000000,
      0x00000000, 0x00000000, 0x00000000, 0x00000000, 0x00000000, 0x00000000, 0x00000240, 0x00000000] =
   (0x8649adfa, 0xfc98946e, 0x28f51917, 0x69027a9e)"
  by (simp add: md5_round_defs upt_rec)

lemma md5_hash_coll_b:
  "make_md5_hash_from_password ''TEXTCOLLBYfGiJUETHQ4hEcKSMd5zYpgqf1YRDhkmxHkhPWptrkoyz28wnI9V0aHeAuaKnak'' = ''faad49866e9498fc1719f5289e7a0269''"
  by (simp add: make_md5_hash_from_password_def md5_digest_def md5_words_coll_b md5_init_def
      md5_blocks_numeral md5_block_coll_b_1 md5_block_coll_b_2 hexdigest_def hex_digit_def le_bytes32_def del: md5_block.simps)

text \<open>A digest is sixteen bytes, and its text thirty-two lowercase hexadecimal digits.\<close>

lemma length_md5_digest: "length (md5_digest bs) = 16"
  by (simp add: md5_digest_def le_bytes32_def Let_def split: prod.splits)

lemma length_hexdigest: "length (hexdigest bs) = 2 * length bs"
  by (induction bs) (simp_all add: hexdigest_def)

lemma hex_digit_lowercase: "hex_digit n \<in> set ''0123456789abcdef''"
proof -
  have "n mod 16 < length ''0123456789abcdef''" by simp
  then show ?thesis unfolding hex_digit_def by (rule nth_mem)
qed

lemma set_hexdigest: "set (hexdigest bs) \<subseteq> set ''0123456789abcdef''"
proof (induction bs)
  case Nil
  show ?case by (simp add: hexdigest_def)
next
  case (Cons b bs)
  have "hexdigest (b # bs) = [hex_digit (unat b div 16), hex_digit (unat b mod 16)] @ hexdigest bs"
    by (simp add: hexdigest_def)
  then show ?case
    using Cons hex_digit_lowercase [of "unat b div 16"] hex_digit_lowercase [of "unat b mod 16"]
    by simp
qed

text \<open>
  C7, as stated, fails in its second consequence: two different passwords can have the
  same hash, and then the hash of one verifies the other. The two alphanumeric
  passwords below differ in one letter and have the MD5 digest
  \<^verbatim>\<open>faad49866e9498fc1719f5289e7a0269\<close>.
\<close>

theorem password_hash_collision_counterexample:
  "''TEXTCOLLBYfGiJUETHQ4hAcKSMd5zYpgqf1YRDhkmxHkhPWptrkoyz28wnI9V0aHeAuaKnak'' \<noteq>
   ''TEXTCOLLBYfGiJUETHQ4hEcKSMd5zYpgqf1YRDhkmxHkhPWptrkoyz28wnI9V0aHeAuaKnak'' \<and>
   check_password_hash
     (generate_password_hash ''TEXTCOLLBYfGiJUETHQ4hAcKSMd5zYpgqf1YRDhkmxHkhPWptrkoyz28wnI9V0aHeAuaKnak'')
     ''TEXTCOLLBYfGiJUETHQ4hEcKSMd5zYpgqf1YRDhkmxHkhPWptrkoyz28wnI9V0aHeAuaKnak''"
  by (simp add: check_password_hash_def generate_password_hash_def md5_hash_coll_a md5_hash_coll_b)

text \<open>
  C7, amended. \<^verbatim>\<open>check_password_hash(h, p)\<close> is true if and only if h equals
  \<^verbatim>\<open>generate_password_hash(p)\<close>; so for every password p,
  \<^verbatim>\<open>check_password_hash(generate_password_hash(p), p)\<close> is true, and for all passwords
  p1 and p2, \<^verbatim>\<open>check_password_hash(generate_password_hash(p1), p2)\<close> is true exactly
  when the two passwords have the same hash, hence false whenever their hashes differ.
  \<^verbatim>\<open>generate_password_hash\<close> is a function of the password and always yields
  thirty-two characters, each a lowercase hexadecimal digit.
\<close>

theorem password_hash_check:
  "check_password_hash h p = (h = generate_password_hash p) \<and>
   check_password_hash (generate_password_hash p) p \<and>
   check_password_hash (generate_password_hash p1) p2 =
     (generate_password_hash p1 = generate_password_hash p2) \<and>
   length (generate_password_hash p) = 32 \<and>
   set (generate_password_hash p) \<subseteq> set ''0123456789abcdef''"
proof -
  have len: "length (generate_password_hash p) = 32"
    by (simp add: generate_password_hash_def make_md5_hash_from_password_def length_hexdigest
        length_md5_digest)
  have hex: "set (generate_password_hash p) \<subseteq> set ''0123456789abcdef''"
    unfolding generate_password_hash_def make_md5_hash_from_password_def by (rule set_hexdigest)
  have chk: "check_password_hash h' p' = (h' = generate_password_hash p')" for h' p'
    by (simp add: check_password_hash_def)
  from len hex show ?thesis
    unfolding chk by blast
qed

text \<open>The hash of \<^verbatim>\<open>abc\<close> verifies \<^verbatim>\<open>abc\<close> and not the empty password.\<close>

theorem password_hash_check_witness:
  "check_password_hash ''900150983cd24fb0d6963f7d28e17f72'' ''abc'' \<and>
   generate_password_hash ''abc'' = ''900150983cd24fb0d6963f7d28e17f72'' \<and>
   generate_password_hash '''' = ''d41d8cd98f00b204e9800998ecf8427e'' \<and>
   \<not> check_password_hash (generate_password_hash ''abc'') ''''"
  using password_hash_check [of "''900150983cd24fb0d6963f7d28e17f72''" "''abc''" "''abc''" "''''"]
  by (simp add: generate_password_hash_def md5_hash_abc md5_hash_empty)

end
